theory Spec2Isabelle
  imports Main "HOL-Library.AList"
begin

section \<open>JavaScript values and the ways a call can complete\<close>

text \<open>
  The values a handler can throw. \<open>catch (error)\<close> binds a value of type \<open>unknown\<close>;
  the cases kept here are the ones the source tells apart: instances of \<open>Error\<close> (with
  their message), strings, booleans, \<open>null\<close>, \<open>undefined\<close>, and plain objects (with
  their \<open>message\<close> property when they have one), and objects that have no string form:
  an object without a prototype, or one whose \<open>toString\<close> throws. Such an object
  carries what its conversion to a string throws.
\<close>

datatype js_value =
    JError string
  | JString string
  | JBoolean bool
  | JNull
  | JUndefined
  | JObject "string option"
  | JNoString js_value

text \<open>\<open>error instanceof Error\<close>.\<close>

fun instanceof_Error :: "js_value \<Rightarrow> bool" where
  "instanceof_Error (JError m) = True"
| "instanceof_Error v = False"

text \<open>\<open>err?.message\<close>: the property read, \<open>undefined\<close> (here \<open>None\<close>) where there is none.\<close>

fun message_of :: "js_value \<Rightarrow> string option" where
  "message_of (JError m) = Some m"
| "message_of (JObject m) = m"
| "message_of v = None"

text \<open>
  \<open>String(error)\<close>, the language's conversion to a string: the string, or what the
  conversion throws.
\<close>

fun String_of :: "js_value \<Rightarrow> js_value + string" where
  "String_of (JError m) = Inr (if m = [] then ''Error'' else ''Error: '' @ m)"
| "String_of (JString s) = Inr s"
| "String_of (JBoolean b) = Inr (if b then ''true'' else ''false'')"
| "String_of JNull = Inr ''null''"
| "String_of JUndefined = Inr ''undefined''"
| "String_of (JObject m) = Inr ''[object Object]''"
| "String_of (JNoString thrown) = Inl thrown"

text \<open>
  How a call of a function that may be asynchronous completes: it returns a value that
  is no promise, it throws, or it returns a promise that is fulfilled, that is rejected,
  or that never settles.
\<close>

datatype 'a completion =
    Returns 'a
  | Throws js_value
  | Resolves 'a
  | Rejects js_value
  | Pending

text \<open>
  What \<open>await\<close> makes of a completion: a value and a fulfilled promise alike, a throw
  and a rejection alike; on a promise that never settles the \<open>await\<close> never returns.
\<close>

datatype 'a awaited = Fulfilled 'a | Rejected js_value | Unsettled

fun await :: "'a completion \<Rightarrow> 'a awaited" where
  "await (Returns v) = Fulfilled v"
| "await (Resolves v) = Fulfilled v"
| "await (Throws e) = Rejected e"
| "await (Rejects e) = Rejected e"
| "await Pending = Unsettled"

section \<open>Spans and tracers\<close>

text \<open>
  A span is an object of the tracing library. The model keeps what this package reads
  of it, the answer of \<open>isRecording()\<close>, and what it does to it: the method calls it
  receives, oldest first. Ending a span stops it recording.
\<close>

datatype status_code = UNSET | OK | ERROR

datatype attr_value = AString string | ANumber nat

type_synonym attributes = "(string \<times> attr_value) list"

datatype span_call =
    SetStatus status_code "string option"
  | RecordException js_value
  | SetAttributes attributes
  | UpdateName string
  | End

record span =
  recording :: bool
  calls :: "span_call list"

definition invoke :: "span_call \<Rightarrow> span \<Rightarrow> span" where
  "invoke c s = s\<lparr>calls := calls s @ [c]\<rparr>"

definition isRecording :: "span \<Rightarrow> bool" where
  "isRecording s = recording s"

definition span_end :: "span \<Rightarrow> span" where
  "span_end s = (invoke End s)\<lparr>recording := False\<rparr>"

datatype span_kind = INTERNAL | SERVER | CLIENT | PRODUCER | CONSUMER

text \<open>
  A context is named by the calls that made it: \<open>otelContext.active()\<close> and
  \<open>propagation.extract(context, carrier)\<close>.
\<close>

datatype otel_context = Active | Extract otel_context "(string \<times> string) list"

text \<open>
  A tracer: whether the spans it starts are recording, and the spans it has been asked
  to start (name, kind, parent context), oldest first.
\<close>

record tracer =
  records :: bool
  started :: "(string \<times> span_kind \<times> otel_context) list"

text \<open>
  \<open>tracer.startActiveSpan(name, options, context, fn)\<close> of the tracing library: it
  starts a span and returns what \<open>fn(span)\<close> returns. \<open>options\<close> is the span kind when
  one is given; a call without a context uses the active one.
\<close>

definition tracer_startActiveSpan ::
  "string \<Rightarrow> span_kind option \<Rightarrow> otel_context \<Rightarrow> (span \<Rightarrow> 'r \<times> span) \<Rightarrow> tracer
    \<Rightarrow> ('r \<times> span) \<times> tracer" where
  "tracer_startActiveSpan name options ctx fn t =
     (let kind = (case options of None \<Rightarrow> INTERNAL | Some k \<Rightarrow> k);
          span = \<lparr>recording = records t, calls = []\<rparr>
      in (fn span, t\<lparr>started := started t @ [(name, kind, ctx)]\<rparr>))"

section \<open>The active-span wrapper\<close>

text \<open>
  \<open>createActiveSpanHandler(fn)\<close>. The work function gets the span and hands it back
  as it is when the work completes. A promise result gets a fulfilment callback only
  (\<open>result.then(...)\<close> with one argument), so a rejection passes through untouched; the
  \<open>catch\<close> block sees synchronous throws only.
\<close>

definition createActiveSpanHandler ::
  "(span \<Rightarrow> 'a completion \<times> span) \<Rightarrow> span \<Rightarrow> 'a completion \<times> span" where
  "createActiveSpanHandler fn span =
     (case fn span of
        (Resolves result, span) \<Rightarrow>
          (Resolves result, if isRecording span then span_end span else span)
      | (Rejects error, span) \<Rightarrow> (Rejects error, span)
      | (Pending, span) \<Rightarrow> (Pending, span)
      | (Returns result, span) \<Rightarrow>
          (Returns result, if isRecording span then span_end span else span)
      | (Throws error, span) \<Rightarrow>
          if \<not> isRecording span then (Throws error, span)
          else (Throws error,
                span_end (invoke (RecordException error)
                  (invoke (SetStatus ERROR (message_of error)) span))))"

text \<open>The three call shapes of \<open>ActiveSpanArgs\<close>.\<close>

datatype 'a ActiveSpanArgs =
    Args2 string "span \<Rightarrow> 'a completion \<times> span"
  | Args3 string "span_kind option" "span \<Rightarrow> 'a completion \<times> span"
  | Args4 string "span_kind option" otel_context "span \<Rightarrow> 'a completion \<times> span"

text \<open>
  The \<open>startActiveSpan\<close> of the tracer that \<open>getTracer()\<close> returns: it wraps the
  work function and calls the library's tracer.
\<close>

fun getTracer_startActiveSpan ::
  "'a ActiveSpanArgs \<Rightarrow> tracer \<Rightarrow> ('a completion \<times> span) \<times> tracer" where
  "getTracer_startActiveSpan (Args2 name fn) t =
     tracer_startActiveSpan name None Active (createActiveSpanHandler fn) t"
| "getTracer_startActiveSpan (Args3 name options fn) t =
     tracer_startActiveSpan name options Active (createActiveSpanHandler fn) t"
| "getTracer_startActiveSpan (Args4 name options ctx fn) t =
     tracer_startActiveSpan name options ctx (createActiveSpanHandler fn) t"

text \<open>
  The exported \<open>startActiveSpan\<close>: it wraps the work function and calls the tracer of
  \<open>getTracer()\<close>, which wraps it once more.
\<close>

fun startActiveSpan ::
  "'a ActiveSpanArgs \<Rightarrow> tracer \<Rightarrow> ('a completion \<times> span) \<times> tracer" where
  "startActiveSpan (Args2 name fn) t =
     getTracer_startActiveSpan (Args2 name (createActiveSpanHandler fn)) t"
| "startActiveSpan (Args3 name options fn) t =
     getTracer_startActiveSpan (Args3 name options (createActiveSpanHandler fn)) t"
| "startActiveSpan (Args4 name options ctx fn) t =
     getTracer_startActiveSpan (Args4 name options ctx (createActiveSpanHandler fn)) t"

section \<open>Requests, responses and strings\<close>

text \<open>
  \<open>String.prototype.toLowerCase\<close> on the characters a header name can hold (ASCII).
\<close>

definition lower_char :: "char \<Rightarrow> char" where
  "lower_char c =
     (let n = (of_char c :: nat) in if 65 \<le> n \<and> n \<le> 90 then char_of (n + 32) else c)"

definition toLowerCase :: "string \<Rightarrow> string" where
  "toLowerCase s = map lower_char s"

text \<open>
  \<open>new URL(url).pathname\<close> for the serialised absolute http(s) URL that
  \<open>Request.url\<close> holds: what follows the authority, up to the query or fragment.
\<close>

definition url_pathname :: "string \<Rightarrow> string" where
  "url_pathname url =
     (let after_scheme = drop 3 (dropWhile (\<lambda>c. c \<noteq> CHR '':'') url);
          from_path = dropWhile (\<lambda>c. c \<noteq> CHR ''/'') after_scheme
      in takeWhile (\<lambda>c. c \<noteq> CHR ''?'' \<and> c \<noteq> CHR ''#'') from_path)"

text \<open>
  A request: method, URL, the pairs \<open>req.headers.entries()\<close> yields, and what
  \<open>req.headers.toJSON()\<close> returns on the runtime that has it.
\<close>

record request =
  req_method :: string
  req_url :: string
  req_headers :: "(string \<times> string) list"
  req_headers_toJSON :: "(string \<times> string) list"

text \<open>
  How a body stream ends: it closes, it fails with an error, or it never closes (a
  stream of server-sent events that stays open).
\<close>

datatype stream_end = Closes | Errors js_value | NeverCloses

text \<open>
  A response body: the text a reader gets from it once the stream has closed, whether
  it is unusable (\<open>bodyUsed\<close>: already read, or locked), and how its stream ends.
  Reading marks it used; \<open>clone()\<close> and \<open>text()\<close> throw a \<open>TypeError\<close> on an unusable
  body, as the Fetch standard says. The message of that error differs between
  runtimes; one is fixed here.
\<close>

record body =
  body_text :: string
  body_used :: bool
  body_end :: stream_end

record response =
  status :: nat
  resp_headers :: "(string \<times> string) list"
  resp_body :: "body option"

definition body_TypeError :: js_value where
  "body_TypeError = JError ''Body is unusable''"

text \<open>\<open>response.clone()\<close>: the response as it is after the call, and the clone.\<close>

definition response_clone :: "response \<Rightarrow> js_value + response \<times> response" where
  "response_clone r =
     (case resp_body r of
        None \<Rightarrow> Inr (r, r)
      | Some b \<Rightarrow> if body_used b then Inl body_TypeError else Inr (r, r))"

text \<open>
  \<open>await response.text()\<close>: the text, and the response as it is after the read. The
  promise is fulfilled when the stream closes, rejected when the body is unusable or
  the stream fails, and never settles while the stream stays open.
\<close>

definition response_text :: "response \<Rightarrow> (string \<times> response) awaited" where
  "response_text r =
     (case resp_body r of
        None \<Rightarrow> Fulfilled ([], r)
      | Some b \<Rightarrow>
          if body_used b then Rejected body_TypeError
          else (case body_end b of
                  Closes \<Rightarrow>
                    Fulfilled (body_text b, r\<lparr>resp_body := Some (b\<lparr>body_used := True\<rparr>)\<rparr>)
                | Errors error \<Rightarrow> Rejected error
                | NeverCloses \<Rightarrow> Unsettled))"

text \<open>\<open>Object.fromEntries(entries)\<close>: a later entry replaces an earlier one of its key.\<close>

definition Object_fromEntries :: "(string \<times> string) list \<Rightarrow> (string \<times> string) list" where
  "Object_fromEntries entries = foldl (\<lambda>obj (k, v). AList.update k v obj) [] entries"

section \<open>The request-tracing middleware\<close>

text \<open>
  The body of the \<open>try\<close> block after \<open>await next()\<close> has given a response. First the
  measurement of the body: the response and the attributes after it, the error thrown,
  or no return while the read of the clone is not settled.
\<close>

definition body_size :: "response \<Rightarrow> attributes \<Rightarrow> (response \<times> attributes) awaited" where
  "body_size response attributes =
     (case resp_body response of
        None \<Rightarrow> Fulfilled (response, attributes)
      | Some b \<Rightarrow>
          (case response_clone response of
             Inl error \<Rightarrow> Rejected error
           | Inr (response, clonedResponse) \<Rightarrow>
               (case response_text clonedResponse of
                  Fulfilled (text, clonedResponse) \<Rightarrow>
                    Fulfilled (response,
                      AList.update ''http.response.body.size'' (ANumber (length text))
                        attributes)
                | Rejected error \<Rightarrow> Rejected error
                | Unsettled \<Rightarrow> Unsettled)))"

fun add_request_headers :: "(string \<times> string) list \<Rightarrow> attributes \<Rightarrow> attributes" where
  "add_request_headers [] attributes = attributes"
| "add_request_headers ((key, value) # entries) attributes =
     (if toLowerCase key = ''user-agent'' then add_request_headers entries attributes
      else add_request_headers entries
             (AList.update (''http.request.header.'' @ toLowerCase key) (AString value)
                attributes))"

fun add_response_headers :: "(string \<times> string) list \<Rightarrow> attributes \<Rightarrow> attributes" where
  "add_response_headers [] attributes = attributes"
| "add_response_headers ((key, value) # entries) attributes =
     add_response_headers entries
       (AList.update (''http.response.header.'' @ toLowerCase key) (AString value)
          attributes)"

definition basic_attributes :: "request \<Rightarrow> response \<Rightarrow> attributes" where
  "basic_attributes req response =
     [(''http.request.method'', AString (req_method req)),
      (''url.path'', AString (url_pathname (req_url req))),
      (''url.full'', AString (req_url req)),
      (''http.response.status_code'', ANumber (status response))]"

definition try_block :: "request \<Rightarrow> response \<Rightarrow> span \<Rightarrow> response awaited \<times> span" where
  "try_block req response rootSpan =
     (let rootSpan = invoke (SetStatus OK None) rootSpan;
          attributes = basic_attributes req response
      in case body_size response attributes of
           Fulfilled (response, attributes) \<Rightarrow>
             (let attributes = add_request_headers (req_headers req) attributes;
                  attributes = add_response_headers (resp_headers response) attributes
              in (Fulfilled response, invoke (SetAttributes attributes) rootSpan))
         | Rejected error \<Rightarrow> (Rejected error, rootSpan)
         | Unsettled \<Rightarrow> (Unsettled, rootSpan))"

text \<open>
  The \<open>catch\<close> block: the value it throws, and the span after it. The argument of
  \<open>setStatus\<close> is computed before the call, so when \<open>String(error)\<close> throws, the span
  gets no call and the block throws what the conversion threw; otherwise the block ends
  with \<open>throw error\<close>.
\<close>

definition catch_block :: "js_value \<Rightarrow> span \<Rightarrow> js_value \<times> span" where
  "catch_block error rootSpan =
     (case (if instanceof_Error error then Inr (message_of error)
            else (case String_of error of
                    Inl thrown \<Rightarrow> Inl thrown
                  | Inr text \<Rightarrow> Inr (Some text))) of
        Inl thrown \<Rightarrow> (thrown, rootSpan)
      | Inr message \<Rightarrow>
          (let rootSpan = invoke (SetStatus ERROR message) rootSpan
           in (error,
               if instanceof_Error error then invoke (RecordException error) rootSpan
               else rootSpan)))"

definition finally_block :: "request \<Rightarrow> span \<Rightarrow> span" where
  "finally_block req rootSpan =
     span_end (invoke (UpdateName (req_method req @ '' '' @ url_pathname (req_url req))) rootSpan)"

text \<open>The \<open>catch\<close> block followed by the \<open>finally\<close> block.\<close>

definition catch_finally :: "request \<Rightarrow> js_value \<Rightarrow> span \<Rightarrow> response completion \<times> span" where
  "catch_finally req error rootSpan =
     (case catch_block error rootSpan of
        (thrown, rootSpan) \<Rightarrow> (Rejects thrown, finally_block req rootSpan))"

text \<open>
  The function given to \<open>otelContext.with\<close>, run with the root span active; the
  callback of \<open>startActiveSpan\<close> around it awaits its result and returns it as it is.
  \<open>next\<close> runs downstream with the span active and hands the span back as it is when
  \<open>next()\<close> completes. While \<open>next()\<close> or the read of the body is not settled, nothing
  further runs: neither the \<open>catch\<close> nor the \<open>finally\<close> block.
\<close>

definition after_try :: "request \<Rightarrow> response \<Rightarrow> span \<Rightarrow> response completion \<times> span" where
  "after_try req response rootSpan =
     (case try_block req response rootSpan of
        (Fulfilled response, rootSpan) \<Rightarrow> (Resolves response, finally_block req rootSpan)
      | (Rejected error, rootSpan) \<Rightarrow> catch_finally req error rootSpan
      | (Unsettled, rootSpan) \<Rightarrow> (Pending, rootSpan))"

definition traced ::
  "request \<Rightarrow> (span \<Rightarrow> response completion \<times> span) \<Rightarrow> span \<Rightarrow> response completion \<times> span" where
  "traced req next rootSpan =
     (case next rootSpan of
        (completion, rootSpan) \<Rightarrow>
          (case await completion of
             Fulfilled response \<Rightarrow> after_try req response rootSpan
           | Rejected error \<Rightarrow> catch_finally req error rootSpan
           | Unsettled \<Rightarrow> (Pending, rootSpan)))"

text \<open>The middleware that \<open>opentelemetry()\<close> returns, on the tracer it resolved.\<close>

definition middleware ::
  "bool \<Rightarrow> request \<Rightarrow> (span \<Rightarrow> response completion \<times> span) \<Rightarrow> tracer
    \<Rightarrow> (response completion \<times> span) \<times> tracer" where
  "middleware headerHasToJSON req next t =
     (let headers =
            (if headerHasToJSON then req_headers_toJSON req
             else Object_fromEntries (req_headers req));
          ctx = Extract Active headers
      in tracer_startActiveSpan ''request'' (Some SERVER) ctx (traced req next) t)"

section \<open>Construction of the middleware\<close>

text \<open>
  What the factory finds in the process: whether the tracer it gets is the placeholder
  \<open>ProxyTracer\<close>, whether \<open>new NodeSDK(...)\<close> and \<open>sdk.start()\<close> throw (and what),
  whether a context manager is installed, and the runtime's \<open>headerHasToJSON\<close>.
\<close>

record process =
  tracer_is_proxy :: bool
  NodeSDK_new :: "js_value option"
  NodeSDK_start :: "js_value option"
  has_context_manager :: bool
  headerHasToJSON :: bool

text \<open>
  A context manager: whether its \<open>enable()\<close> throws, and whether
  \<open>otelContext.setGlobalContextManager\<close> throws on it.
\<close>

record context_manager =
  enable_throws :: "js_value option"
  setGlobal_throws :: "js_value option"

record options =
  serviceName :: "string option"
  contextManager :: "context_manager option"

datatype setup_call =
    GetTracer string
  | NewNodeSDK string
  | SdkStart
  | Enable
  | SetGlobalContextManager

text \<open>
  The body of the \<open>try\<close> around the installation: whether it throws, and the calls
  that ran.
\<close>

definition install_context_manager ::
  "context_manager \<Rightarrow> (js_value + unit) \<times> setup_call list" where
  "install_context_manager cm =
     (case enable_throws cm of
        Some error \<Rightarrow> (Inl error, [Enable])
      | None \<Rightarrow>
          (case setGlobal_throws cm of
             Some error \<Rightarrow> (Inl error, [Enable, SetGlobalContextManager])
           | None \<Rightarrow> (Inr (), [Enable, SetGlobalContextManager])))"

type_synonym middleware_fn =
  "request \<Rightarrow> (span \<Rightarrow> response completion \<times> span) \<Rightarrow> tracer
    \<Rightarrow> (response completion \<times> span) \<times> tracer"

definition after_bootstrap ::
  "options \<Rightarrow> process \<Rightarrow> setup_call list \<Rightarrow> (js_value + middleware_fn) \<times> setup_call list" where
  "after_bootstrap opts p done =
     (let done =
            (case contextManager opts of
               Some cm \<Rightarrow>
                 if \<not> has_context_manager p then
                   (case install_context_manager cm of
                      (Inl error, tried) \<Rightarrow> done @ tried
                    | (Inr u, tried) \<Rightarrow> done @ tried)
                 else done
             | None \<Rightarrow> done)
      in (Inr (middleware (headerHasToJSON p)), done))"

definition opentelemetry ::
  "options \<Rightarrow> process \<Rightarrow> (js_value + middleware_fn) \<times> setup_call list" where
  "opentelemetry opts p =
     (let name = (case serviceName opts of None \<Rightarrow> ''@vafast/vafast'' | Some n \<Rightarrow> n);
          done = [GetTracer name]
      in if tracer_is_proxy p then
           (case NodeSDK_new p of
              Some error \<Rightarrow> (Inl error, done @ [NewNodeSDK name])
            | None \<Rightarrow>
                (case NodeSDK_start p of
                   Some error \<Rightarrow> (Inl error, done @ [NewNodeSDK name, SdkStart])
                 | None \<Rightarrow>
                     after_bootstrap opts p (done @ [NewNodeSDK name, SdkStart, GetTracer name])))
         else after_bootstrap opts p done)"

section \<open>The current span and its attributes\<close>

text \<open>
  The active context as \<open>getCurrentSpan\<close> reads it: its \<open>_currentContext\<close> map when it
  has one, from context keys (by their description) to spans.
\<close>

type_synonym active_context = "(string \<times> span) list option"

definition contextKeySpan :: string where
  "contextKeySpan = ''OpenTelemetry Context Key SPAN''"

definition getCurrentSpan :: "active_context \<Rightarrow> span option" where
  "getCurrentSpan active =
     (case active of
        None \<Rightarrow> None
      | Some currentContext \<Rightarrow> map_of currentContext contextKeySpan)"

text \<open>
  \<open>setAttributes\<close>: its result, and the current span after the call. The span's
  \<open>setAttributes\<close> returns the span, and \<open>!!\<close> of an object is \<open>true\<close>.
\<close>

definition setAttributes :: "attributes \<Rightarrow> active_context \<Rightarrow> bool \<times> span option" where
  "setAttributes attributes active =
     (case getCurrentSpan active of
        None \<Rightarrow> (False, None)
      | Some span \<Rightarrow> (True, Some (invoke (SetAttributes attributes) span)))"

section \<open>Readable responses and the attributes the specification lists\<close>

text \<open>
  A response whose body can be read to its end: it has no body, or the body is neither
  read nor locked and its stream closes.
\<close>

definition usable :: "response \<Rightarrow> bool" where
  "usable r =
     (case resp_body r of
        None \<Rightarrow> True
      | Some b \<Rightarrow> \<not> body_used b \<and> body_end b = Closes)"



text \<open>
  One attribute per header under a prefix, the name lowercased; of two headers with one
  name the later one counts.
\<close>

definition header_attributes ::
  "string \<Rightarrow> (string \<times> string) list \<Rightarrow> (string \<rightharpoonup> attr_value)" where
  "header_attributes prefix entries =
     map_of (rev (map (\<lambda>(key, value). (prefix @ toLowerCase key, AString value)) entries))"

definition last_value :: "(string \<times> string) list \<Rightarrow> string \<Rightarrow> string option" where
  "last_value entries n =
     map_of (rev (map (\<lambda>(key, value). (toLowerCase key, value)) entries)) n"

definition size_attribute :: "response \<Rightarrow> (string \<rightharpoonup> attr_value)" where
  "size_attribute r =
     (case resp_body r of
        None \<Rightarrow> Map.empty
      | Some b \<Rightarrow> [''http.response.body.size'' \<mapsto> ANumber (length (body_text b))])"

definition collected :: "request \<Rightarrow> response \<Rightarrow> (string \<rightharpoonup> attr_value)" where
  "collected req r =
     map_of (basic_attributes req r) ++ size_attribute r
     ++ header_attributes ''http.request.header.''
          (filter (\<lambda>(key, value). toLowerCase key \<noteq> ''user-agent'') (req_headers req))
     ++ header_attributes ''http.response.header.'' (resp_headers r)"

section \<open>A request, a response and a tracer to run the definitions on\<close>

definition example_request :: request where
  "example_request =
     \<lparr>req_method = ''GET'', req_url = ''http://localhost/search?q=test-search&limit=10'',
      req_headers = [(''accept'', ''*/*''), (''User-Agent'', ''curl/8'')],
      req_headers_toJSON = [(''accept'', ''*/*''), (''user-agent'', ''curl/8'')]\<rparr>"

definition example_response :: "bool \<Rightarrow> response" where
  "example_response used =
     \<lparr>status = 200, resp_headers = [(''Content-Type'', ''text/plain'')],
      resp_body = Some \<lparr>body_text = ''hello'', body_used = used, body_end = Closes\<rparr>\<rparr>"


text \<open>\<open>Object.create(null)\<close>, and what \<open>String\<close> throws on it.\<close>

definition example_bare_object :: js_value where
  "example_bare_object = JNoString (JError ''Cannot convert object to primitive value'')"

definition example_tracer :: tracer where
  "example_tracer = \<lparr>records = True, started = []\<rparr>"

definition example_span :: span where
  "example_span = \<lparr>recording = True, calls = []\<rparr>"

section \<open>What the middleware's blocks call on the span\<close>

lemma calls_invoke: "calls (invoke c s) = calls s @ [c]"
  by (simp add: invoke_def)

lemma calls_span_end: "calls (span_end s) = calls s @ [End]"
  by (simp add: span_end_def invoke_def)

lemma calls_finally_block:
  "calls (finally_block req s) =
     calls s @ [UpdateName (req_method req @ '' '' @ url_pathname (req_url req)), End]"
  by (simp add: finally_block_def calls_span_end calls_invoke)

text \<open>
  The \<open>catch\<close> block on a value that has a string form: it throws the value it caught,
  after the status and, for an \<open>Error\<close>, the record of the exception.
\<close>

lemma catch_block_printable:
  assumes "String_of e = Inr text"
  shows "fst (catch_block e s) = e
    \<and> calls (snd (catch_block e s)) =
        calls s @ SetStatus ERROR (Some (case e of JError m \<Rightarrow> m | _ \<Rightarrow> text))
          # (if instanceof_Error e then [RecordException e] else [])"
  using assms by (cases e) (simp_all add: catch_block_def invoke_def)

text \<open>The \<open>catch\<close> block on any value: the calls it can make.\<close>

lemma catch_block_calls:
  "\<exists>own. calls (snd (catch_block e s)) = calls s @ own
     \<and> set own \<subseteq> {RecordException e}
          \<union> {SetStatus ERROR (Some (case e of JError m \<Rightarrow> m | _ \<Rightarrow> text)) |text.
               String_of e = Inr text}"
  by (cases e) (auto simp: catch_block_def invoke_def)

lemma catch_finally_calls:
  "\<exists>own. calls (snd (catch_finally req e s)) =
       calls s @ own @ [UpdateName (req_method req @ '' '' @ url_pathname (req_url req)), End]
     \<and> set own \<subseteq> {RecordException e}
          \<union> {SetStatus ERROR (Some (case e of JError m \<Rightarrow> m | _ \<Rightarrow> text)) |text.
               String_of e = Inr text}
     \<and> fst (catch_finally req e s) \<noteq> Pending"
proof -
  obtain own where "calls (snd (catch_block e s)) = calls s @ own"
    and "set own \<subseteq> {RecordException e}
          \<union> {SetStatus ERROR (Some (case e of JError m \<Rightarrow> m | _ \<Rightarrow> text)) |text.
               String_of e = Inr text}"
    using catch_block_calls[of e s] by blast
  then show ?thesis
    by (cases "catch_block e s") (auto simp: catch_finally_def calls_finally_block)
qed







lemma traced_failure:
  assumes "next s = (c, s1)" and "c = Throws e \<or> c = Rejects e"
  shows "traced req next s = catch_finally req e s1"
  using assms by (auto simp: traced_def)

lemma middleware_unfold:
  "middleware h req next t =
     (traced req next \<lparr>recording = records t, calls = []\<rparr>,
      t\<lparr>started := started t @
         [(''request'', SERVER,
           Extract Active (if h then req_headers_toJSON req
                           else Object_fromEntries (req_headers req)))]\<rparr>)"
  by (simp add: middleware_def tracer_startActiveSpan_def Let_def)

section \<open>The batch of attributes on a response that can be read\<close>

lemma header_attributes_Nil: "header_attributes p [] = Map.empty"
  by (simp add: header_attributes_def)

lemma header_attributes_Cons:
  "header_attributes p ((key, v) # es) =
     [p @ toLowerCase key \<mapsto> AString v] ++ header_attributes p es"
  by (simp add: header_attributes_def map_of_append del: append.simps)

lemma map_upd_add: "(m(k \<mapsto> v)) ++ A = m ++ ([k \<mapsto> v] ++ A)"
  by (rule ext) (simp add: map_add_def split: option.splits)

lemma map_of_add_request_headers:
  "map_of (add_request_headers entries attrs) =
     map_of attrs ++ header_attributes ''http.request.header.''
       (filter (\<lambda>(key, value). toLowerCase key \<noteq> ''user-agent'') entries)"
proof (induction entries arbitrary: attrs)
  case Nil
  then show ?case by (simp add: header_attributes_Nil)
next
  case (Cons kv entries)
  obtain key v where kv: "kv = (key, v)" by (cases kv)
  show ?case
  proof (cases "toLowerCase key = ''user-agent''")
    case True
    then show ?thesis by (simp add: kv Cons.IH)
  next
    case False
    let ?k = "''http.request.header.'' @ toLowerCase key"
    let ?rest = "filter (\<lambda>(key, value). toLowerCase key \<noteq> ''user-agent'') entries"
    have "map_of (add_request_headers (kv # entries) attrs) =
        map_of (AList.update ?k (AString v) attrs)
          ++ header_attributes ''http.request.header.'' ?rest"
      using False by (simp add: kv Cons.IH del: append.simps)
    also have "\<dots> = map_of attrs
          ++ ([?k \<mapsto> AString v] ++ header_attributes ''http.request.header.'' ?rest)"
      unfolding update_conv' by (rule map_upd_add)
    also have "\<dots> = map_of attrs
          ++ header_attributes ''http.request.header.'' ((key, v) # ?rest)"
      by (simp only: header_attributes_Cons)
    finally show ?thesis using False by (simp add: kv del: append.simps)
  qed
qed

lemma map_of_add_response_headers:
  "map_of (add_response_headers entries attrs) =
     map_of attrs ++ header_attributes ''http.response.header.'' entries"
proof (induction entries arbitrary: attrs)
  case Nil
  then show ?case by (simp add: header_attributes_Nil)
next
  case (Cons kv entries)
  obtain key v where kv: "kv = (key, v)" by (cases kv)
  let ?k = "''http.response.header.'' @ toLowerCase key"
  have "map_of (add_response_headers (kv # entries) attrs) =
      map_of (AList.update ?k (AString v) attrs)
        ++ header_attributes ''http.response.header.'' entries"
    by (simp add: kv Cons.IH del: append.simps)
  also have "\<dots> = map_of attrs
        ++ ([?k \<mapsto> AString v] ++ header_attributes ''http.response.header.'' entries)"
    unfolding update_conv' by (rule map_upd_add)
  also have "\<dots> = map_of attrs
        ++ header_attributes ''http.response.header.'' ((key, v) # entries)"
    by (simp only: header_attributes_Cons)
  finally show ?case by (simp only: kv)
qed

lemma body_size_usable:
  assumes "usable r"
  shows "\<exists>attrs'. body_size r attrs = Fulfilled (r, attrs')
     \<and> map_of attrs' = map_of attrs ++ size_attribute r"
  using assms
  by (auto simp: usable_def body_size_def response_clone_def response_text_def
        size_attribute_def update_conv' split: option.splits)

text \<open>
  With a body that can be read the \<open>try\<close> block gives back the response it was given,
  and makes two calls on the span: the status, and one batch of attributes.
\<close>

lemma try_block_usable:
  assumes "usable r"
  shows "\<exists>attrs. try_block req r s =
        (Fulfilled r, invoke (SetAttributes attrs) (invoke (SetStatus OK None) s))
     \<and> map_of attrs = collected req r"
proof -
  from body_size_usable[OF assms, of "basic_attributes req r"]
  obtain attrs' where b: "body_size r (basic_attributes req r) = Fulfilled (r, attrs')"
    and m: "map_of attrs' = map_of (basic_attributes req r) ++ size_attribute r"
    by blast
  let ?attrs = "add_response_headers (resp_headers r)
      (add_request_headers (req_headers req) attrs')"
  have "try_block req r s =
      (Fulfilled r, invoke (SetAttributes ?attrs) (invoke (SetStatus OK None) s))"
    by (simp add: try_block_def Let_def b)
  moreover have "map_of ?attrs = collected req r"
    unfolding collected_def
    by (simp only: map_of_add_response_headers map_of_add_request_headers m)
  ultimately show ?thesis by blast
qed

text \<open>
  When \<open>next()\<close> gives a response that can be read, the middleware resolves with that
  response, its body unread, after four calls on the span: status Ok, one batch of
  attributes, the rename, the end.
\<close>

lemma middleware_usable:
  assumes "next \<lparr>recording = records t, calls = []\<rparr> = (c, s1)"
    and "c = Returns r \<or> c = Resolves r"
    and "usable r"
  shows "fst (fst (middleware h req next t)) = Resolves r
    \<and> (\<exists>attrs. map_of attrs = collected req r
          \<and> calls (snd (fst (middleware h req next t))) =
              calls s1 @ [SetStatus OK None, SetAttributes attrs,
                UpdateName (req_method req @ '' '' @ url_pathname (req_url req)), End])"
proof -
  from try_block_usable[OF assms(3), of req s1]
  obtain attrs where t: "try_block req r s1 =
        (Fulfilled r, invoke (SetAttributes attrs) (invoke (SetStatus OK None) s1))"
    and m: "map_of attrs = collected req r"
    by blast
  have "traced req next \<lparr>recording = records t, calls = []\<rparr> =
      (Resolves r, finally_block req
         (invoke (SetAttributes attrs) (invoke (SetStatus OK None) s1)))"
    using assms(1,2) t by (auto simp: traced_def after_try_def)
  then show ?thesis
    using m by (auto simp: middleware_unfold calls_finally_block calls_invoke)
qed

lemma dom_header_attributes:
  "dom (header_attributes p es) = (\<lambda>(key, value). p @ toLowerCase key) ` set es"
  by (auto simp: header_attributes_def dom_map_of_conv_image_fst image_iff split: prod.splits)
    force+

lemma not_in_dom_header_attributes:
  assumes "\<And>n. k \<noteq> p @ n"
  shows "header_attributes p es k = None"
proof -
  have "k \<notin> dom (header_attributes p es)"
    using assms by (auto simp: dom_header_attributes)
  then show ?thesis by blast
qed

lemma collected_basic:
  "collected req r ''http.request.method'' = Some (AString (req_method req))
   \<and> collected req r ''url.path'' = Some (AString (url_pathname (req_url req)))
   \<and> collected req r ''url.full'' = Some (AString (req_url req))
   \<and> collected req r ''http.response.status_code'' = Some (ANumber (status r))"
  by (simp add: collected_def map_add_def not_in_dom_header_attributes basic_attributes_def
        size_attribute_def split: option.splits)

lemma collected_size:
  "collected req r ''http.response.body.size'' =
     (case resp_body r of None \<Rightarrow> None | Some b \<Rightarrow> Some (ANumber (length (body_text b))))"
  by (simp add: collected_def map_add_def not_in_dom_header_attributes basic_attributes_def
        size_attribute_def split: option.splits)

lemma header_attributes_lookup:
  "header_attributes p es (p @ n) = map_option AString (last_value es n)"
proof (induction es)
  case Nil
  then show ?case by (simp add: header_attributes_Nil last_value_def)
next
  case (Cons kv es)
  obtain key v where kv: "kv = (key, v)" by (cases kv)
  have "last_value (kv # es) n =
      (case last_value es n of Some x \<Rightarrow> Some x
       | None \<Rightarrow> if toLowerCase key = n then Some v else None)"
    by (simp add: kv last_value_def map_of_append map_add_def split: option.splits)
  moreover have "header_attributes p (kv # es) (p @ n) =
      (case header_attributes p es (p @ n) of Some x \<Rightarrow> Some x
       | None \<Rightarrow> if toLowerCase key = n then Some (AString v) else None)"
    unfolding kv header_attributes_Cons by (simp add: map_add_def split: option.splits)
  ultimately show ?case using Cons.IH by (simp split: option.splits)
qed

lemma last_value_user_agent:
  "last_value (filter (\<lambda>(key, value). toLowerCase key \<noteq> ''user-agent'') es) ''user-agent'' = None"
proof -
  have "''user-agent'' \<notin> fst ` set (rev (map (\<lambda>(key, value). (toLowerCase key, value))
      (filter (\<lambda>(key, value). toLowerCase key \<noteq> ''user-agent'') es)))"
    by (auto simp: image_iff)
  then show ?thesis unfolding last_value_def map_of_eq_None_iff .
qed

lemma collected_request_header:
  "collected req r (''http.request.header.'' @ n) =
     map_option AString
       (last_value (filter (\<lambda>(key, value). toLowerCase key \<noteq> ''user-agent'') (req_headers req)) n)"
proof -
  have a: "header_attributes ''http.response.header.'' (resp_headers r)
      (''http.request.header.'' @ n) = None"
    by (rule not_in_dom_header_attributes) simp
  have b: "map_of (basic_attributes req r) (''http.request.header.'' @ n) = None"
    by (simp add: basic_attributes_def)
  have c: "size_attribute r (''http.request.header.'' @ n) = None"
    by (simp add: size_attribute_def split: option.splits)
  show ?thesis
    by (simp add: collected_def map_add_def header_attributes_lookup a b c
          del: append.simps split: option.splits)
qed

lemma collected_response_header:
  "collected req r (''http.response.header.'' @ n) =
     map_option AString (last_value (resp_headers r) n)"
proof -
  have a: "header_attributes ''http.request.header.'' es (''http.response.header.'' @ n) = None" for es
    by (rule not_in_dom_header_attributes) simp
  have b: "map_of (basic_attributes req r) (''http.response.header.'' @ n) = None"
    by (simp add: basic_attributes_def)
  have c: "size_attribute r (''http.response.header.'' @ n) = None"
    by (simp add: size_attribute_def split: option.splits)
  show ?thesis
    by (simp add: collected_def map_add_def header_attributes_lookup a b c
          del: append.simps split: option.splits)
qed

lemma dom_collected:
  "dom (collected req r) =
     {''http.request.method'', ''url.path'', ''url.full'', ''http.response.status_code''}
     \<union> (case resp_body r of None \<Rightarrow> {} | Some b \<Rightarrow> {''http.response.body.size''})
     \<union> (\<lambda>(key, value). ''http.request.header.'' @ toLowerCase key)
          ` {kv \<in> set (req_headers req). toLowerCase (fst kv) \<noteq> ''user-agent''}
     \<union> (\<lambda>(key, value). ''http.response.header.'' @ toLowerCase key) ` set (resp_headers r)"
  by (auto simp: collected_def dom_header_attributes basic_attributes_def size_attribute_def
        split: option.splits simp del: append.simps)


section \<open>Evaluating the examples\<close>

lemma toLowerCase_User_Agent: "toLowerCase ''User-Agent'' = ''user-agent''"
  by code_simp

lemma toLowerCase_Content_Type: "toLowerCase ''Content-Type'' = ''content-type''"
  by code_simp

lemma toLowerCase_accept: "toLowerCase ''accept'' = ''accept''"
  by code_simp

lemmas example_defs =
  example_request_def example_response_def example_tracer_def example_span_def

lemmas run_defs =
  middleware_unfold traced_def after_try_def try_block_def catch_block_def
  catch_finally_def finally_block_def body_size_def response_clone_def response_text_def
  basic_attributes_def body_TypeError_def span_end_def invoke_def url_pathname_def
  Object_fromEntries_def toLowerCase_User_Agent toLowerCase_Content_Type toLowerCase_accept

section \<open>The active-span wrapper on a failing work function\<close>

text \<open>
  A synchronous throw: on a recording span the wrapper sets the status, records the
  exception, ends the span and throws the same value; on a span that is not recording
  it throws the same value and calls nothing.
\<close>

lemma createActiveSpanHandler_throws:
  assumes "fn s = (Throws e, s1)"
  shows "createActiveSpanHandler fn s =
     (Throws e,
      if recording s1
      then \<lparr>recording = False,
            calls = calls s1 @ [SetStatus ERROR (message_of e), RecordException e, End]\<rparr>
      else s1)"
  using assms
  by (simp add: createActiveSpanHandler_def isRecording_def span_end_def invoke_def)

text \<open>A rejected promise: the wrapper hands on the rejection and calls nothing.\<close>

lemma createActiveSpanHandler_rejects:
  assumes "fn s = (Rejects e, s1)"
  shows "createActiveSpanHandler fn s = (Rejects e, s1)"
  using assms by (simp add: createActiveSpanHandler_def)

text \<open>Wrapping a work function twice does what wrapping it once does.\<close>

lemma createActiveSpanHandler_idem:
  "createActiveSpanHandler (createActiveSpanHandler fn) s = createActiveSpanHandler fn s"
proof (cases "fn s")
  case (Pair c s1)
  then show ?thesis
    by (cases c)
      (simp_all add: createActiveSpanHandler_def isRecording_def span_end_def invoke_def)
qed

lemma startActiveSpan_eq:
  "startActiveSpan args t = getTracer_startActiveSpan args t"
proof -
  have "createActiveSpanHandler (createActiveSpanHandler fn) = createActiveSpanHandler fn"
    for fn :: "span \<Rightarrow> 'a completion \<times> span"
    by (rule ext) (rule createActiveSpanHandler_idem)
  then show ?thesis by (cases args) simp_all
qed

text \<open>
  Claim C3. When the work function of \<open>startActiveSpan\<close> fails on a recording span,
  the wrapper is to set status Error with the error's message, record the exception,
  end the span and hand on the error, alike for a synchronous throw and for a rejected
  promise. Evaluated on a recording span with the error \<open>Error('boom')\<close>: after the
  rejected promise the span has received no call and is still recording, while after
  the synchronous throw it has received the three calls and is ended.
\<close>

theorem startActiveSpan_rejection_leaves_span_untouched:
  "startActiveSpan (Args2 ''job'' (\<lambda>s. (Rejects (JError ''boom''), s))) example_tracer
     = ((Rejects (JError ''boom''), \<lparr>recording = True, calls = []\<rparr>),
        \<lparr>records = True, started = [(''job'', INTERNAL, Active)]\<rparr>)
   \<and> startActiveSpan (Args2 ''job'' (\<lambda>s. (Throws (JError ''boom''), s))) example_tracer
     = ((Throws (JError ''boom''),
         \<lparr>recording = False,
          calls = [SetStatus ERROR (Some ''boom''), RecordException (JError ''boom''), End]\<rparr>),
        \<lparr>records = True, started = [(''job'', INTERNAL, Active)]\<rparr>)"
  by (simp add: example_defs tracer_startActiveSpan_def createActiveSpanHandler_def
        isRecording_def span_end_def invoke_def)

section \<open>The middleware, request by request\<close>




text \<open>
  When \<open>next()\<close> throws or rejects with a value that has a string form, the middleware
  rejects with that same value; on the span it sets status Error with the message of
  an \<open>Error\<close> and with the string form of any other value, and it records the
  exception exactly for an \<open>Error\<close>.
\<close>

lemma middleware_failure_printable:
  assumes "next \<lparr>recording = records t, calls = []\<rparr> = (c, s1)"
    and "c = Throws e \<or> c = Rejects e"
    and "String_of e = Inr text"
  shows "fst (fst (middleware h req next t)) = Rejects e
    \<and> calls (snd (fst (middleware h req next t))) =
        calls s1
        @ [SetStatus ERROR (Some (case e of JError m \<Rightarrow> m | _ \<Rightarrow> text))]
        @ (if instanceof_Error e then [RecordException e] else [])
        @ [UpdateName (req_method req @ '' '' @ url_pathname (req_url req)), End]"
proof -
  have "traced req next \<lparr>recording = records t, calls = []\<rparr> = catch_finally req e s1"
    using traced_failure[of "next" "\<lparr>recording = records t, calls = []\<rparr>" c s1 e req]
      assms(1,2) by simp
  moreover have "catch_finally req e s1 =
      (Rejects e, finally_block req (snd (catch_block e s1)))"
    using catch_block_printable[OF assms(3), of s1]
    by (cases "catch_block e s1") (simp add: catch_finally_def)
  ultimately show ?thesis
    using catch_block_printable[OF assms(3), of s1]
    by (simp add: middleware_unfold calls_finally_block)
qed

text \<open>
  Claim C4. When \<open>next()\<close> throws or rejects with a value \<open>e\<close>, the middleware is to
  set status Error (with \<open>String(e)\<close> when \<open>e\<close> is no \<open>Error\<close>) and to reject with that
  same \<open>e\<close>. Evaluated on \<open>next()\<close> throwing \<open>Object.create(null)\<close>: \<open>String(error)\<close>
  throws a \<open>TypeError\<close> inside the \<open>catch\<close> block, so the span gets no status, only the
  rename and the end, and the middleware rejects with the \<open>TypeError\<close> in place of the
  value thrown.
\<close>

theorem middleware_unprintable_error_replaced:
  "middleware False example_request (\<lambda>s. (Throws example_bare_object, s)) example_tracer
   = ((Rejects (JError ''Cannot convert object to primitive value''),
       \<lparr>recording = False, calls = [UpdateName ''GET /search'', End]\<rparr>),
      \<lparr>records = True,
       started = [(''request'', SERVER,
         Extract Active [(''accept'', ''*/*''), (''User-Agent'', ''curl/8'')])]\<rparr>)"
  by (simp add: example_defs example_bare_object_def run_defs)

text \<open>
  Claim C5. When \<open>next()\<close> returns a response, the span is to get status Ok and one
  batch of attributes (method, path, full URL, status code, body size when there is a
  body, the request headers but \<open>user-agent\<close>, the response headers). Evaluated on a
  response whose body has already been read: \<open>response.clone()\<close> throws inside the
  \<open>try\<close> block, so the span gets status Ok, then status Error and the exception, and
  no attributes at all.
\<close>

theorem middleware_unusable_body_sets_no_attributes:
  "calls (snd (fst (middleware False example_request
      (\<lambda>s. (Resolves (example_response True), s)) example_tracer)))
   = [SetStatus OK None, SetStatus ERROR (Some ''Body is unusable''),
      RecordException (JError ''Body is unusable''), UpdateName ''GET /search'', End]"
  by (simp add: example_defs run_defs)

text \<open>
  Claim C6. When \<open>next()\<close> returns a response, the middleware is to return that very
  response, its body still readable. Evaluated on a response whose body has already
  been read: the middleware rejects with the \<open>TypeError\<close> of \<open>response.clone()\<close> and
  returns no response.
\<close>

theorem middleware_unusable_body_rejects:
  "fst (fst (middleware False example_request
      (\<lambda>s. (Resolves (example_response True), s)) example_tracer))
   = Rejects (JError ''Body is unusable'')"
  by (simp add: example_defs run_defs)




text \<open>
  Claim C10. When \<open>next()\<close> throws or rejects, the middleware sets no attributes on
  the span: every call it makes is the Error status, the record of the exception, the
  rename or the end.
\<close>

theorem middleware_failure_sets_no_attributes:
  assumes "next \<lparr>recording = records t, calls = []\<rparr> = (c, s1)"
    and "c = Throws e \<or> c = Rejects e"
  shows "\<exists>own. calls (snd (fst (middleware h req next t))) = calls s1 @ own
    \<and> (\<forall>a. SetAttributes a \<notin> set own)
    \<and> set own \<subseteq> {RecordException e,
          UpdateName (req_method req @ '' '' @ url_pathname (req_url req)), End}
        \<union> {SetStatus ERROR (Some (case e of JError m \<Rightarrow> m | _ \<Rightarrow> text)) |text.
             String_of e = Inr text}"
proof -
  have t: "traced req next \<lparr>recording = records t, calls = []\<rparr> = catch_finally req e s1"
    using traced_failure[of "next" "\<lparr>recording = records t, calls = []\<rparr>" c s1 e req]
      assms by simp
  obtain own where o: "calls (snd (catch_finally req e s1)) =
      calls s1 @ own @ [UpdateName (req_method req @ '' '' @ url_pathname (req_url req)), End]"
    and sub: "set own \<subseteq> {RecordException e}
        \<union> {SetStatus ERROR (Some (case e of JError m \<Rightarrow> m | _ \<Rightarrow> text)) |text.
             String_of e = Inr text}"
    using catch_finally_calls[of req e s1] by blast
  let ?own = "own @ [UpdateName (req_method req @ '' '' @ url_pathname (req_url req)), End]"
  have "calls (snd (fst (middleware h req next t))) = calls s1 @ ?own"
    using t o by (simp add: middleware_unfold)
  moreover have "\<forall>a. SetAttributes a \<notin> set ?own" using sub by auto
  moreover have "set ?own \<subseteq> {RecordException e,
          UpdateName (req_method req @ '' '' @ url_pathname (req_url req)), End}
        \<union> {SetStatus ERROR (Some (case e of JError m \<Rightarrow> m | _ \<Rightarrow> text)) |text.
             String_of e = Inr text}"
    using sub by auto
  ultimately show ?thesis by blast
qed

theorem middleware_failure_sets_no_attributes_witness:
  "(\<lambda>s. (Rejects (JError ''boom''), invoke (SetAttributes [(''user.id'', AString ''7'')]) s))
      \<lparr>recording = records example_tracer, calls = []\<rparr>
     = (Rejects (JError ''boom'') :: response completion,
        \<lparr>recording = True, calls = [SetAttributes [(''user.id'', AString ''7'')]]\<rparr>)
   \<and> calls (snd (fst (middleware False example_request
        (\<lambda>s. (Rejects (JError ''boom''), invoke (SetAttributes [(''user.id'', AString ''7'')]) s))
        example_tracer)))
     = [SetAttributes [(''user.id'', AString ''7'')], SetStatus ERROR (Some ''boom''),
        RecordException (JError ''boom''), UpdateName ''GET /search'', End]"
  using middleware_failure_sets_no_attributes[of
      "\<lambda>s. (Rejects (JError ''boom''), invoke (SetAttributes [(''user.id'', AString ''7'')]) s)"
      example_tracer "Rejects (JError ''boom'')"
      "\<lparr>recording = True, calls = [SetAttributes [(''user.id'', AString ''7'')]]\<rparr>"
      "JError ''boom''" False example_request]
  by (simp add: example_defs run_defs)

section \<open>Construction and the exported helpers\<close>

text \<open>
  Claim C8, as the code has it. The factory returns the middleware whenever the
  bootstrap of the tracing SDK does not throw, whatever the context manager does when
  it is enabled and installed; an error thrown by \<open>new NodeSDK(...)\<close> or by
  \<open>sdk.start()\<close> is not caught and leaves the factory.
\<close>

theorem opentelemetry_construction_errors:
  "(\<not> tracer_is_proxy p \<or> (NodeSDK_new p = None \<and> NodeSDK_start p = None)
      \<longrightarrow> fst (opentelemetry opts p) = Inr (middleware (headerHasToJSON p)))
   \<and> (tracer_is_proxy p \<and> NodeSDK_new p = Some e
      \<longrightarrow> fst (opentelemetry opts p) = Inl e)
   \<and> (tracer_is_proxy p \<and> NodeSDK_new p = None \<and> NodeSDK_start p = Some e
      \<longrightarrow> fst (opentelemetry opts p) = Inl e)"
  by (auto simp: opentelemetry_def after_bootstrap_def Let_def split: option.splits)

theorem opentelemetry_construction_errors_witness:
  "opentelemetry
     \<lparr>serviceName = None,
      contextManager =
        Some \<lparr>enable_throws = Some (JError ''no async hooks''), setGlobal_throws = None\<rparr>\<rparr>
     \<lparr>tracer_is_proxy = True, NodeSDK_new = None, NodeSDK_start = None,
      has_context_manager = False, headerHasToJSON = False\<rparr>
   = (Inr (middleware False),
      [GetTracer ''@vafast/vafast'', NewNodeSDK ''@vafast/vafast'', SdkStart,
       GetTracer ''@vafast/vafast'', Enable])
   \<and> fst (opentelemetry \<lparr>serviceName = None, contextManager = None\<rparr>
       \<lparr>tracer_is_proxy = True, NodeSDK_new = Some (JError ''bad exporter''),
        NodeSDK_start = None, has_context_manager = False, headerHasToJSON = False\<rparr>)
     = Inl (JError ''bad exporter'')
   \<and> fst (opentelemetry \<lparr>serviceName = None, contextManager = None\<rparr>
       \<lparr>tracer_is_proxy = True, NodeSDK_new = None,
        NodeSDK_start = Some (JString ''port in use''), has_context_manager = False,
        headerHasToJSON = False\<rparr>)
     = Inl (JString ''port in use'')"
  using opentelemetry_construction_errors[of
      "\<lparr>tracer_is_proxy = True, NodeSDK_new = None, NodeSDK_start = None,
        has_context_manager = False, headerHasToJSON = False\<rparr>"
      "\<lparr>serviceName = None,
        contextManager =
          Some \<lparr>enable_throws = Some (JError ''no async hooks''), setGlobal_throws = None\<rparr>\<rparr>"]
    opentelemetry_construction_errors[of
      "\<lparr>tracer_is_proxy = True, NodeSDK_new = Some (JError ''bad exporter''),
        NodeSDK_start = None, has_context_manager = False, headerHasToJSON = False\<rparr>"
      "\<lparr>serviceName = None, contextManager = None\<rparr>" "JError ''bad exporter''"]
    opentelemetry_construction_errors[of
      "\<lparr>tracer_is_proxy = True, NodeSDK_new = None,
        NodeSDK_start = Some (JString ''port in use''), has_context_manager = False,
        headerHasToJSON = False\<rparr>"
      "\<lparr>serviceName = None, contextManager = None\<rparr>" "JString ''port in use''"]
  by (simp add: opentelemetry_def after_bootstrap_def install_context_manager_def Let_def)

text \<open>
  Claim C8, as it is written, fails: with the placeholder tracer in place and
  \<open>sdk.start()\<close> throwing \<open>Error('boom')\<close>, the factory throws that error and returns
  no middleware.
\<close>

theorem opentelemetry_sdk_start_failure_propagates:
  "fst (opentelemetry \<lparr>serviceName = Some ''test-app'', contextManager = None\<rparr>
     \<lparr>tracer_is_proxy = True, NodeSDK_new = None, NodeSDK_start = Some (JError ''boom''),
      has_context_manager = False, headerHasToJSON = False\<rparr>) = Inl (JError ''boom'')"
  by (simp add: opentelemetry_def Let_def)

text \<open>
  Claim C9. \<open>setAttributes(attributes)\<close> returns true exactly when
  \<open>getCurrentSpan()\<close> gives a span, and then that span has received the attributes;
  with no current span it returns false and no span is touched.
\<close>

theorem setAttributes_true_iff_current_span:
  "fst (setAttributes a active) = (getCurrentSpan active \<noteq> None)
   \<and> snd (setAttributes a active) = map_option (invoke (SetAttributes a)) (getCurrentSpan active)"
  by (simp add: setAttributes_def split: option.splits)

theorem setAttributes_true_iff_current_span_witness:
  "setAttributes [(''user.id'', AString ''7'')] (Some [(contextKeySpan, example_span)])
     = (True, Some \<lparr>recording = True, calls = [SetAttributes [(''user.id'', AString ''7'')]]\<rparr>)
   \<and> setAttributes [(''user.id'', AString ''7'')] (Some []) = (False, None)
   \<and> setAttributes [(''user.id'', AString ''7'')] None = (False, None)"
  using setAttributes_true_iff_current_span[of "[(''user.id'', AString ''7'')]"
      "Some [(contextKeySpan, example_span)]"]
  by (simp add: setAttributes_def getCurrentSpan_def invoke_def example_defs)

end
